theory Spec2Isabelle
  imports Complex_Main "HOL-Library.Multiset"
begin

section \<open>Python values and errors\<close>

text \<open>
  The exceptions of \<^verbatim>\<open>bot.py\<close> that the model tracks. A fallible function returns
  \<open>error + 'a\<close>, with \<open>Inl\<close> for the exception raised.
\<close>

datatype error =
    ValueError
  | TypeError
  | AttributeError
  | UnboundLocalError
  | OverflowError
  | ZeroDivisionError

text \<open>
  A character is a code point from 0 to 255, a string a list of them; text with code
  points beyond U+00FF is outside the model. \<^verbatim>\<open>str.lower\<close> maps the capital letters of
  that range (A to Z, and U+00C0 to U+00DE without the multiplication sign U+00D7) to
  the letter 32 places higher.
\<close>

definition lower_char :: "char \<Rightarrow> char" where
  "lower_char c =
     (case map_of
             (zip (''ABCDEFGHIJKLMNOPQRSTUVWXYZ'' @
                   [CHR 0xC0, CHR 0xC1, CHR 0xC2, CHR 0xC3, CHR 0xC4, CHR 0xC5, CHR 0xC6,
                    CHR 0xC7, CHR 0xC8, CHR 0xC9, CHR 0xCA, CHR 0xCB, CHR 0xCC, CHR 0xCD,
                    CHR 0xCE, CHR 0xCF, CHR 0xD0, CHR 0xD1, CHR 0xD2, CHR 0xD3, CHR 0xD4,
                    CHR 0xD5, CHR 0xD6, CHR 0xD8, CHR 0xD9, CHR 0xDA, CHR 0xDB, CHR 0xDC,
                    CHR 0xDD, CHR 0xDE])
                  (''abcdefghijklmnopqrstuvwxyz'' @
                   [CHR 0xE0, CHR 0xE1, CHR 0xE2, CHR 0xE3, CHR 0xE4, CHR 0xE5, CHR 0xE6,
                    CHR 0xE7, CHR 0xE8, CHR 0xE9, CHR 0xEA, CHR 0xEB, CHR 0xEC, CHR 0xED,
                    CHR 0xEE, CHR 0xEF, CHR 0xF0, CHR 0xF1, CHR 0xF2, CHR 0xF3, CHR 0xF4,
                    CHR 0xF5, CHR 0xF6, CHR 0xF8, CHR 0xF9, CHR 0xFA, CHR 0xFB, CHR 0xFC,
                    CHR 0xFD, CHR 0xFE])) c of
        None \<Rightarrow> c
      | Some d \<Rightarrow> d)"

definition lower :: "string \<Rightarrow> string" where
  "lower s = map lower_char s"

text \<open>
  The whitespace of \<^verbatim>\<open>str.strip\<close>, \<^verbatim>\<open>int\<close> and \<^verbatim>\<open>float\<close> among the code
  points up to 255: tab to carriage return, the four separators U+001C to U+001F, the
  space, the next-line control U+0085 and the no-break space U+00A0.
\<close>

definition isspace :: "char \<Rightarrow> bool" where
  "isspace c = (c \<in> set [CHR 0x09, CHR 0x0A, CHR 0x0B, CHR 0x0C, CHR 0x0D,
                           CHR 0x1C, CHR 0x1D, CHR 0x1E, CHR 0x1F, CHR 0x20,
                           CHR 0x85, CHR 0xA0])"

definition strip :: "string \<Rightarrow> string" where
  "strip s = rev (dropWhile isspace (rev (dropWhile isspace s)))"

definition isdigit :: "char \<Rightarrow> bool" where
  "isdigit c = (c \<in> set ''0123456789'')"

definition digit_val :: "char \<Rightarrow> int" where
  "digit_val c = (case map_of (zip ''0123456789'' [0, 1, 2, 3, 4, 5, 6, 7, 8, 9]) c of
                    None \<Rightarrow> 0
                  | Some d \<Rightarrow> d)"

text \<open>
  The digits of a decimal literal accepted by \<^verbatim>\<open>int(str)\<close>: one or more digits, with
  single underscores allowed between two digits.
\<close>

fun int_digits :: "string \<Rightarrow> bool" where
  "int_digits [] = False"
| "int_digits [c] = isdigit c"
| "int_digits (c # d # r) =
     (isdigit c \<and> (if d = CHR ''_'' then int_digits r else int_digits (d # r)))"

definition digits_value :: "string \<Rightarrow> int" where
  "digits_value s = foldl (\<lambda>acc c. 10 * acc + digit_val c) 0 s"

text \<open>
  \<^verbatim>\<open>int(s)\<close> for a string: surrounding whitespace is dropped, one sign is allowed, the
  rest must be a decimal literal; anything else raises \<^verbatim>\<open>ValueError\<close>. Digits beyond
  ASCII and the interpreter's limit on the length of a literal are not represented.
\<close>

definition py_int :: "string \<Rightarrow> error + int" where
  "py_int s =
     (let t = strip s;
          neg = (t \<noteq> [] \<and> hd t = CHR ''-'');
          body = (if t \<noteq> [] \<and> (hd t = CHR ''-'' \<or> hd t = CHR ''+'') then tl t else t)
      in if int_digits body
         then Inr ((if neg then - 1 else 1) * digits_value (filter (\<lambda>c. c \<noteq> CHR ''_'') body))
         else Inl ValueError)"

text \<open>
  Python's floats. The type of floats and the operations the bot uses on them are
  parameters of the model, so every theorem holds for binary64 with its rounding, its
  range, its infinities and its NaN:
  \<^item> \<open>float_of_int i\<close> is \<^verbatim>\<open>float(i)\<close>, which raises \<^verbatim>\<open>OverflowError\<close> beyond the range;
  \<^item> \<open>float_of_str s\<close> is \<^verbatim>\<open>float(s)\<close>, \<open>None\<close> where it raises \<^verbatim>\<open>ValueError\<close>;
  \<^item> \<open>float_is_zero x\<close> is \<^verbatim>\<open>x == 0\<close>, which makes \<open>x\<close> false as a condition;
  \<^item> \<open>float_zero\<close> is the float that the integer 0 becomes in \<^verbatim>\<open>0 + x\<close>;
  \<^item> \<open>float_add x y\<close> is \<^verbatim>\<open>x + y\<close>;
  \<^item> \<open>int_div i j\<close> is \<^verbatim>\<open>i / j\<close> for two integers, which raises
    \<^verbatim>\<open>ZeroDivisionError\<close> or \<^verbatim>\<open>OverflowError\<close>;
  \<^item> \<open>int_div_float i x\<close> is \<^verbatim>\<open>i / x\<close> for an integer and a float, which raises the
    same two;
  \<^item> \<open>pow10_float d\<close> is \<^verbatim>\<open>10 ** d\<close> for a negative integer \<open>d\<close>, a float.
\<close>

record 'f float_ops =
  float_of_int :: "int \<Rightarrow> error + 'f"
  float_of_str :: "string \<Rightarrow> 'f option"
  float_is_zero :: "'f \<Rightarrow> bool"
  float_zero :: "'f"
  float_add :: "'f \<Rightarrow> 'f \<Rightarrow> 'f"
  int_div :: "int \<Rightarrow> int \<Rightarrow> error + 'f"
  int_div_float :: "int \<Rightarrow> 'f \<Rightarrow> error + 'f"
  pow10_float :: "int \<Rightarrow> error + 'f"

text \<open>
  A decoded JSON value; a number is an integer or a float. An object is the list of its
  items; its keys are distinct.
\<close>

datatype 'f json =
    JNull
  | JBool bool
  | JInt int
  | JFloat 'f
  | JStr string
  | JArray "'f json list"
  | JObject "(string \<times> 'f json) list"

text \<open>\<^verbatim>\<open>d.get(k, dflt)\<close>: only a dict has the method.\<close>

definition dict_get :: "'f json \<Rightarrow> string \<Rightarrow> 'f json \<Rightarrow> error + 'f json" where
  "dict_get d k dflt =
     (case d of
        JObject kv \<Rightarrow> Inr (case map_of kv k of None \<Rightarrow> dflt | Some v \<Rightarrow> v)
      | _ \<Rightarrow> Inl AttributeError)"

text \<open>Python's truth value of a decoded JSON value, and \<^verbatim>\<open>v or 0\<close>.\<close>

definition truthy :: "'f float_ops \<Rightarrow> 'f json \<Rightarrow> bool" where
  "truthy ops v =
     (case v of
        JNull \<Rightarrow> False
      | JBool b \<Rightarrow> b
      | JInt i \<Rightarrow> i \<noteq> 0
      | JFloat x \<Rightarrow> \<not> float_is_zero ops x
      | JStr s \<Rightarrow> s \<noteq> []
      | JArray xs \<Rightarrow> xs \<noteq> []
      | JObject kv \<Rightarrow> kv \<noteq> [])"

definition or_zero :: "'f float_ops \<Rightarrow> 'f json \<Rightarrow> 'f json" where
  "or_zero ops v = (if truthy ops v then v else JInt 0)"

text \<open>
  \<^verbatim>\<open>float(v)\<close>: a float is returned as it is, an integer and a boolean are converted,
  a string is parsed, and every other value raises \<^verbatim>\<open>TypeError\<close>.
\<close>

definition py_float :: "'f float_ops \<Rightarrow> 'f json \<Rightarrow> error + 'f" where
  "py_float ops v =
     (case v of
        JFloat x \<Rightarrow> Inr x
      | JInt i \<Rightarrow> float_of_int ops i
      | JBool b \<Rightarrow> float_of_int ops (if b then 1 else 0)
      | JStr s \<Rightarrow> (case float_of_str ops s of None \<Rightarrow> Inl ValueError | Some x \<Rightarrow> Inr x)
      | _ \<Rightarrow> Inl TypeError)"

section \<open>Transfer records and the per-token summaries\<close>

text \<open>
  One element of the \<^verbatim>\<open>result\<close> list of the explorer's \<^verbatim>\<open>tokentx\<close> answer. Every key
  may be absent (\<open>None\<close>); a present key holds a string, as the explorer sends it.
\<close>

record transfer =
  tx_contractAddress :: "string option"
  tx_tokenSymbol :: "string option"
  tx_tokenName :: "string option"
  tx_tokenDecimal :: "string option"
  tx_value :: "string option"
  tx_to :: "string option"

text \<open>
  An accumulated amount: the integer 0 that a new entry starts with, or the float that
  the additions have produced since.
\<close>

datatype 'f amount = IntZero | FloatVal 'f

text \<open>The dictionary stored in \<^verbatim>\<open>tokens_seen\<close> for one contract address.\<close>

record 'f token =
  symbol :: string
  name :: string
  address :: string
  buys :: nat
  sells :: nat
  buy_amount :: "'f amount"
  sell_amount :: "'f amount"

text \<open>
  \<^verbatim>\<open>tokens_seen\<close> is a Python dict: keys are unique and iteration follows insertion
  order, so it is an association list that is appended to and updated in place.
\<close>

type_synonym 'f tokens = "(string \<times> 'f token) list"

definition tx_get :: "string option \<Rightarrow> string \<Rightarrow> string" where
  "tx_get field dflt = (case field of None \<Rightarrow> dflt | Some v \<Rightarrow> v)"

definition tx_get_int :: "string option \<Rightarrow> int \<Rightarrow> error + int" where
  "tx_get_int field dflt = (case field of None \<Rightarrow> Inr dflt | Some s \<Rightarrow> py_int s)"

definition new_token :: "string \<Rightarrow> string \<Rightarrow> string \<Rightarrow> 'f token" where
  "new_token token_symbol token_name token_address =
     \<lparr>symbol = token_symbol, name = token_name, address = token_address,
      buys = 0, sells = 0, buy_amount = IntZero, sell_amount = IntZero\<rparr>"

definition update_token ::
    "string \<Rightarrow> ('f token \<Rightarrow> 'f token) \<Rightarrow> 'f tokens \<Rightarrow> 'f tokens" where
  "update_token k f ts = map (\<lambda>(k', t). if k' = k then (k', f t) else (k', t)) ts"

text \<open>
  \<^verbatim>\<open>amount += value\<close>: a float addition; the integer 0 of a new entry is converted
  to a float first.
\<close>

definition add_amount :: "'f float_ops \<Rightarrow> 'f amount \<Rightarrow> 'f \<Rightarrow> 'f amount" where
  "add_amount ops a v =
     FloatVal (float_add ops (case a of IntZero \<Rightarrow> float_zero ops | FloatVal x \<Rightarrow> x) v)"

definition add_buy :: "'f float_ops \<Rightarrow> 'f \<Rightarrow> 'f token \<Rightarrow> 'f token" where
  "add_buy ops v t = t\<lparr>buys := buys t + 1, buy_amount := add_amount ops (buy_amount t) v\<rparr>"

definition add_sell :: "'f float_ops \<Rightarrow> 'f \<Rightarrow> 'f token \<Rightarrow> 'f token" where
  "add_sell ops v t =
     t\<lparr>sells := sells t + 1, sell_amount := add_amount ops (sell_amount t) v\<rparr>"

text \<open>
  The decimal-adjusted amount of a record, \<^verbatim>\<open>int(value) / (10 ** decimals)\<close> of line
  160. For decimals from 0 on, \<^verbatim>\<open>10 ** decimals\<close> is an integer and the division is
  that of two integers; for negative decimals it is a float, and the value is divided by
  that float. The memory a very large power needs is not represented.
\<close>

definition tx_amount :: "'f float_ops \<Rightarrow> transfer \<Rightarrow> error + 'f" where
  "tx_amount ops tx =
     (case tx_get_int (tx_tokenDecimal tx) 18 of
        Inl e \<Rightarrow> Inl e
      | Inr decimals \<Rightarrow>
          (case tx_get_int (tx_value tx) 0 of
             Inl e \<Rightarrow> Inl e
           | Inr v \<Rightarrow>
               if 0 \<le> decimals then int_div ops v (10 ^ nat decimals)
               else (case pow10_float ops decimals of
                       Inl e \<Rightarrow> Inl e
                     | Inr p \<Rightarrow> int_div_float ops v p)))"

definition tx_is_buy :: "string \<Rightarrow> transfer \<Rightarrow> bool" where
  "tx_is_buy wallet tx = (lower (tx_get (tx_to tx) '''') = lower wallet)"

text \<open>The body of the loop \<^verbatim>\<open>for tx in token_txns\<close> (lines 156 to 180).\<close>

definition loop_body ::
    "'f float_ops \<Rightarrow> string \<Rightarrow> 'f tokens \<Rightarrow> transfer \<Rightarrow> error + 'f tokens" where
  "loop_body ops wallet tokens_seen tx =
     (let token_address = tx_get (tx_contractAddress tx) '''';
          token_symbol = tx_get (tx_tokenSymbol tx) ''???'';
          token_name = tx_get (tx_tokenName tx) ''Unknown''
      in case tx_amount ops tx of
           Inl e \<Rightarrow> Inl e
         | Inr value \<Rightarrow>
             (let is_buy = tx_is_buy wallet tx;
                  seen = (if map_of tokens_seen token_address = None
                          then tokens_seen @ [(token_address,
                                  new_token token_symbol token_name token_address)]
                          else tokens_seen)
              in if is_buy
                 then Inr (update_token token_address (add_buy ops value) seen)
                 else Inr (update_token token_address (add_sell ops value) seen)))"

fun fold_transfers ::
    "'f float_ops \<Rightarrow> string \<Rightarrow> 'f tokens \<Rightarrow> transfer list \<Rightarrow> error + 'f tokens" where
  "fold_transfers ops wallet tokens_seen [] = Inr tokens_seen"
| "fold_transfers ops wallet tokens_seen (tx # txs) =
     (case loop_body ops wallet tokens_seen tx of
        Inl e \<Rightarrow> Inl e
      | Inr seen \<Rightarrow> fold_transfers ops wallet seen txs)"

section \<open>The wallet report\<close>

text \<open>
  The upstream services, as the answers they give: the bot only reads them. The four
  functions of \<^verbatim>\<open>bot.py\<close> that wrap them catch every exception and return a default.
  The balance and the price are rationals: the bot tests the balance against zero and
  shows the two and their product, whose rounding is not represented.
\<close>

record token_info =
  info_name :: string
  info_symbol :: string
  info_price :: rat
  info_price_change_24h :: rat
  info_volume_24h :: rat
  info_liquidity :: rat

record gateway =
  get_eth_price :: rat
  get_eth_balance :: "string \<Rightarrow> rat"
  get_token_transactions :: "string \<Rightarrow> nat \<Rightarrow> transfer list"
  get_token_info :: "string \<Rightarrow> token_info option"

datatype call =
    GetEthPrice
  | GetEthBalance string
  | GetTokenTransactions string nat
  | GetTokenInfo string

datatype emoji = Green | Red | White

text \<open>The three lines rendered for one token (lines 201 to 218).\<close>

record token_line =
  line_emoji :: emoji
  line_symbol :: string
  line_action :: string
  line_buys :: nat
  line_sells :: nat
  line_address :: string

definition render_token :: "'f token \<Rightarrow> token_line" where
  "render_token t =
     (let (e, action) =
            (if buys t > sells t then (Green, ''BUYING'')
             else if sells t > buys t then (Red, ''SELLING'')
             else (White, ''MIXED''))
      in \<lparr>line_emoji = e, line_symbol = symbol t, line_action = action,
          line_buys = buys t, line_sells = sells t, line_address = address t\<rparr>)"

definition activity :: "'f token \<Rightarrow> nat" where
  "activity x = buys x + sells x"

text \<open>
  \<^verbatim>\<open>sorted(..., key=..., reverse=True)\<close>: Python's sort is stable, also with
  \<^verbatim>\<open>reverse=True\<close>, so entries of equal key keep their order.
\<close>

definition sorted_reverse :: "('a \<Rightarrow> nat) \<Rightarrow> 'a list \<Rightarrow> 'a list" where
  "sorted_reverse key xs = sort_key (\<lambda>x. - int (key x)) xs"

definition shorten_address :: "string \<Rightarrow> string" where
  "shorten_address a = take 6 a @ ''...'' @ drop (length a - 4) a"

text \<open>
  The message text, by its parts: the header with the shortened address, the link and the
  balance; the token section (\<open>None\<close> is the line "No recent token activity found");
  the top-traded section when \<^verbatim>\<open>get_token_info\<close> answered.
\<close>

record report =
  rep_short :: string
  rep_wallet :: string
  rep_eth_balance :: rat
  rep_eth_value_usd :: rat
  rep_activity :: "token_line list option"
  rep_top_traded :: "token_info option"

datatype message = NoActivity | WalletAnalysis report

text \<open>
  \<^verbatim>\<open>format_wallet_analysis\<close> (lines 137 to 232). The local \<^verbatim>\<open>sorted_tokens\<close> is
  assigned only inside \<^verbatim>\<open>if tokens_seen:\<close>; it is \<open>None\<close> while unbound, and reading
  it then raises \<^verbatim>\<open>UnboundLocalError\<close>. The result comes with the upstream calls made.
\<close>

definition format_wallet_analysis ::
    "'f float_ops \<Rightarrow> gateway \<Rightarrow> string \<Rightarrow> call list \<times> (error + message)" where
  "format_wallet_analysis ops gw wallet =
     (let eth_price = get_eth_price gw;
          eth_balance = get_eth_balance gw wallet;
          token_txns = get_token_transactions gw wallet 30;
          calls = [GetEthPrice, GetEthBalance wallet, GetTokenTransactions wallet 30]
      in if token_txns = [] \<and> eth_balance = 0 then (calls, Inr NoActivity)
         else
           (case fold_transfers ops wallet [] token_txns of
              Inl e \<Rightarrow> (calls, Inl e)
            | Inr tokens_seen \<Rightarrow>
                (let header = \<lparr>rep_short = shorten_address wallet, rep_wallet = wallet,
                               rep_eth_balance = eth_balance,
                               rep_eth_value_usd = eth_balance * eth_price,
                               rep_activity = None, rep_top_traded = None\<rparr>;
                     sorted_tokens =
                       (if tokens_seen \<noteq> []
                        then Some (take 8 (sorted_reverse activity (map snd tokens_seen)))
                        else None);
                     msg = header\<lparr>rep_activity := map_option (map render_token) sorted_tokens\<rparr>
                 in case sorted_tokens of
                      None \<Rightarrow> (calls, Inl UnboundLocalError)
                    | Some [] \<Rightarrow> (calls, Inr (WalletAnalysis msg))
                    | Some (top_token # rest) \<Rightarrow>
                        (calls @ [GetTokenInfo (address top_token)],
                         Inr (WalletAnalysis
                                (msg\<lparr>rep_top_traded :=
                                       get_token_info gw (address top_token)\<rparr>))))))"

section \<open>The message handler\<close>

definition ishex :: "char \<Rightarrow> bool" where
  "ishex c = (c \<in> set ''abcdefABCDEF0123456789'')"

text \<open>
  \<^verbatim>\<open>re.match(r"^0x[a-fA-F0-9]{40}$", text)\<close>. In Python \<^verbatim>\<open>$\<close> matches at the end of
  the string and also just before a newline that ends the string.
\<close>

definition re_match_wallet :: "string \<Rightarrow> bool" where
  "re_match_wallet text =
     (take 2 text = ''0x'' \<and> list_all ishex (take 40 (drop 2 text)) \<and>
      length (take 40 (drop 2 text)) = 40 \<and>
      (drop 42 text = [] \<or> drop 42 text = [CHR 0x0A]))"

definition usage_example :: string where
  "usage_example = ''0xd8dA6BF26964aF9D7eEd9e03E53415D37aA96045''"

datatype reply = Analyzing | Analysis message | InvalidAddress string

text \<open>
  What one run of \<^verbatim>\<open>handle_message\<close> does: the replies sent, the upstream calls made,
  and the exception that ended it, if any.
\<close>

record outcome =
  replies :: "reply list"
  gateway_calls :: "call list"
  raised :: "error option"

definition handle_message :: "'f float_ops \<Rightarrow> gateway \<Rightarrow> string \<Rightarrow> outcome" where
  "handle_message ops gw message_text =
     (let text = strip message_text
      in if re_match_wallet text
         then (case format_wallet_analysis ops gw (lower text) of
                 (calls, Inl e) \<Rightarrow>
                   \<lparr>replies = [Analyzing], gateway_calls = calls, raised = Some e\<rparr>
               | (calls, Inr msg) \<Rightarrow>
                   \<lparr>replies = [Analyzing, Analysis msg], gateway_calls = calls,
                    raised = None\<rparr>)
         else \<lparr>replies = [InvalidAddress usage_example], gateway_calls = [],
               raised = None\<rparr>)"

section \<open>Trending pairs\<close>

text \<open>The list comprehension on line 124.\<close>

fun filter_base :: "'f json list \<Rightarrow> error + 'f json list" where
  "filter_base [] = Inr []"
| "filter_base (p # ps) =
     (case dict_get p ''chainId'' JNull of
        Inl e \<Rightarrow> Inl e
      | Inr c \<Rightarrow>
          (case filter_base ps of
             Inl e \<Rightarrow> Inl e
           | Inr r \<Rightarrow> Inr (if c = JStr ''base'' then p # r else r)))"

text \<open>The sort key on line 125: \<^verbatim>\<open>float(x.get("volume", {}).get("h24", 0) or 0)\<close>.\<close>

definition volume_key :: "'f float_ops \<Rightarrow> 'f json \<Rightarrow> error + 'f" where
  "volume_key ops x =
     (case dict_get x ''volume'' (JObject []) of
        Inl e \<Rightarrow> Inl e
      | Inr vol \<Rightarrow>
          (case dict_get vol ''h24'' (JInt 0) of
             Inl e \<Rightarrow> Inl e
           | Inr h \<Rightarrow> py_float ops (or_zero ops h)))"

text \<open>\<^verbatim>\<open>list.sort\<close> computes the key of every element before it compares any.\<close>

fun sort_keys :: "'f float_ops \<Rightarrow> 'f json list \<Rightarrow> error + ('f \<times> 'f json) list" where
  "sort_keys ops [] = Inr []"
| "sort_keys ops (x # xs) =
     (case volume_key ops x of
        Inl e \<Rightarrow> Inl e
      | Inr k \<Rightarrow>
          (case sort_keys ops xs of
             Inl e \<Rightarrow> Inl e
           | Inr r \<Rightarrow> Inr ((k, x) # r)))"

text \<open>
  \<^verbatim>\<open>get_trending_base\<close> (lines 116 to 128), on the list that the answer holds under
  \<^verbatim>\<open>pairs\<close>: the body of the \<^verbatim>\<open>try\<close>, and the bare \<^verbatim>\<open>except\<close> that turns every exception
  into the empty list. The interpreter's \<^verbatim>\<open>list.sort\<close> is the parameter \<open>srt\<close>: it is
  given the \<^verbatim>\<open>reverse\<close> flag and the elements with their keys, and answers the elements
  in their new order. What it does when the keys include a NaN is left to it.
\<close>

definition trending_body ::
    "'f float_ops \<Rightarrow> (bool \<Rightarrow> ('f \<times> 'f json) list \<Rightarrow> 'f json list) \<Rightarrow>
       'f json list \<Rightarrow> error + 'f json list" where
  "trending_body ops srt pairs =
     (case filter_base pairs of
        Inl e \<Rightarrow> Inl e
      | Inr base_pairs \<Rightarrow>
          (case sort_keys ops base_pairs of
             Inl e \<Rightarrow> Inl e
           | Inr keyed \<Rightarrow> Inr (take 10 (srt True keyed))))"

definition get_trending_base ::
    "'f float_ops \<Rightarrow> (bool \<Rightarrow> ('f \<times> 'f json) list \<Rightarrow> 'f json list) \<Rightarrow>
       'f json list \<Rightarrow> 'f json list" where
  "get_trending_base ops srt pairs =
     (case trending_body ops srt pairs of Inl e \<Rightarrow> [] | Inr r \<Rightarrow> r)"

section \<open>Notions used in the statements\<close>

text \<open>
  The key a record is filed under, and the records of one contract address that are buys
  and sells for a wallet, in the order of the list.
\<close>

definition tx_key :: "transfer \<Rightarrow> string" where
  "tx_key tx = tx_get (tx_contractAddress tx) ''''"

definition buys_of :: "string \<Rightarrow> string \<Rightarrow> transfer list \<Rightarrow> transfer list" where
  "buys_of wallet a txs = filter (\<lambda>tx. tx_key tx = a \<and> tx_is_buy wallet tx) txs"

definition sells_of :: "string \<Rightarrow> string \<Rightarrow> transfer list \<Rightarrow> transfer list" where
  "sells_of wallet a txs = filter (\<lambda>tx. tx_key tx = a \<and> \<not> tx_is_buy wallet tx) txs"

text \<open>
  A count of the summary stored under a key, zero when the key is absent, and an amount
  of it, the integer 0 when the key is absent.
\<close>

definition cnt :: "('f token \<Rightarrow> nat) \<Rightarrow> 'f tokens \<Rightarrow> string \<Rightarrow> nat" where
  "cnt f ts a = (case map_of ts a of None \<Rightarrow> 0 | Some t \<Rightarrow> f t)"

definition amt :: "('f token \<Rightarrow> 'f amount) \<Rightarrow> 'f tokens \<Rightarrow> string \<Rightarrow> 'f amount" where
  "amt f ts a = (case map_of ts a of None \<Rightarrow> IntZero | Some t \<Rightarrow> f t)"

text \<open>
  The sum of a list of floats as the loop computes it: the integer 0 when the list is
  empty, else the additions from the left, starting from the float of 0.
\<close>

definition float_sum :: "'f float_ops \<Rightarrow> 'f list \<Rightarrow> 'f amount" where
  "float_sum ops vs =
     (if vs = [] then IntZero else FloatVal (foldl (float_add ops) (float_zero ops) vs))"

text \<open>The spec's words for an accepted text: \<^verbatim>\<open>0x\<close> followed by exactly 40 hexadecimal characters.\<close>

definition is_wallet_address :: "string \<Rightarrow> bool" where
  "is_wallet_address text =
     (length text = 42 \<and> take 2 text = ''0x'' \<and> list_all ishex (drop 2 text))"

text \<open>A pair on the chain \<^verbatim>\<open>base\<close>, and a pair record.\<close>

definition is_base :: "'f json \<Rightarrow> bool" where
  "is_base p = (dict_get p ''chainId'' JNull = Inr (JStr ''base''))"

definition is_dict :: "'f json \<Rightarrow> bool" where
  "is_dict p = (case p of JObject kv \<Rightarrow> True | _ \<Rightarrow> False)"

text \<open>
  Keyed elements in descending order of the rank of their keys, elements of equal rank in
  their old order: the list is reversed, sorted upwards by a stable sort, and reversed.
\<close>

definition descending :: "('f \<Rightarrow> 'o::linorder) \<Rightarrow> ('f \<times> 'a) list \<Rightarrow> ('f \<times> 'a) list" where
  "descending rank keyed = rev (sort_key (\<lambda>(k, x). rank k) (rev keyed))"

section \<open>Example inputs\<close>

text \<open>
  A number parser for the examples: digits, then optionally a point and more digits.
  Python's \<^verbatim>\<open>float\<close> accepts more; both reject the text \<^verbatim>\<open>n/a\<close>.
\<close>

definition example_float :: "string \<Rightarrow> rat option" where
  "example_float s =
     (let a = takeWhile (\<lambda>c. c \<noteq> CHR ''.'') s;
          b = drop 1 (dropWhile (\<lambda>c. c \<noteq> CHR ''.'') s)
      in if a \<noteq> [] \<and> list_all isdigit a \<and> list_all isdigit b
         then Some (of_int (digits_value (a @ b)) / 10 ^ length b)
         else None)"

text \<open>
  Float operations for the examples, on rationals: exact inside the range of binary64,
  raising where binary64 raises. A quotient or an integer of magnitude
  \<open>2 ^ 1024 - 2 ^ 970\<close> or more rounds beyond the largest float, and \<^verbatim>\<open>10 ** d\<close> is
  the float 0.0 for \<open>d\<close> below \<open>-323\<close>. Rounding, infinities and NaN are not part of
  it: the examples use small integers and halves, which binary64 holds exactly.
\<close>

definition float_limit :: int where
  "float_limit = 2 ^ 1024 - 2 ^ 970"

definition example_ops :: "rat float_ops" where
  "example_ops =
     \<lparr>float_of_int = (\<lambda>i. if float_limit \<le> \<bar>i\<bar> then Inl OverflowError else Inr (of_int i)),
      float_of_str = example_float,
      float_is_zero = (\<lambda>x. x = 0),
      float_zero = 0,
      float_add = (\<lambda>x y. x + y),
      int_div =
        (\<lambda>i j. if j = 0 then Inl ZeroDivisionError
               else if float_limit * \<bar>j\<bar> \<le> \<bar>i\<bar> then Inl OverflowError
               else Inr (of_int i / of_int j)),
      int_div_float =
        (\<lambda>i x. if float_limit \<le> \<bar>i\<bar> then Inl OverflowError
               else if x = 0 then Inl ZeroDivisionError
               else Inr (of_int i / x)),
      pow10_float =
        (\<lambda>d. if float_limit \<le> \<bar>d\<bar> then Inl OverflowError
             else if d < - 323 then Inr 0
             else Inr (1 / 10 ^ nat (- d)))\<rparr>"

text \<open>
  A sort for the examples: stable, in ascending order of the keys, or in descending order
  when the flag is set.
\<close>

definition example_sort :: "bool \<Rightarrow> (rat \<times> 'a) list \<Rightarrow> 'a list" where
  "example_sort reverse keyed =
     (if reverse then map snd (descending (\<lambda>k. k) keyed)
      else map snd (sort_key (\<lambda>(k, x). k) keyed))"

definition example_wallet :: string where
  "example_wallet = ''0xd8da6bf26964af9d7eed9e03e53415d37aa96045''"

text \<open>No transfers and a balance of 2.5 ETH.\<close>

definition gw_balance_only :: gateway where
  "gw_balance_only =
     \<lparr>get_eth_price = 3000, get_eth_balance = (\<lambda>w. 5 / 2),
      get_token_transactions = (\<lambda>w n. []), get_token_info = (\<lambda>a. None)\<rparr>"

text \<open>No transfers and a balance of zero.\<close>

definition gw_idle :: gateway where
  "gw_idle =
     \<lparr>get_eth_price = 3000, get_eth_balance = (\<lambda>w. 0),
      get_token_transactions = (\<lambda>w n. []), get_token_info = (\<lambda>a. None)\<rparr>"

text \<open>
  Four transfers of two tokens: one buy of the first (one token of 18 decimals), then a
  sell of 2.5, a buy of 0.5 and a sell of 1 of the second (6 decimals).
\<close>

definition example_transfers :: "transfer list" where
  "example_transfers =
     [\<lparr>tx_contractAddress = Some ''0xaaa'', tx_tokenSymbol = Some ''AAA'',
       tx_tokenName = Some ''Token A'', tx_tokenDecimal = Some ''18'',
       tx_value = Some ''1000000000000000000'',
       tx_to = Some ''0xD8DA6BF26964AF9D7EED9E03E53415D37AA96045''\<rparr>,
      \<lparr>tx_contractAddress = Some ''0xbbb'', tx_tokenSymbol = Some ''BBB'',
       tx_tokenName = Some ''Token B'', tx_tokenDecimal = Some ''6'',
       tx_value = Some ''2500000'',
       tx_to = Some ''0x1111111111111111111111111111111111111111''\<rparr>,
      \<lparr>tx_contractAddress = Some ''0xbbb'', tx_tokenSymbol = Some ''BBB'',
       tx_tokenName = Some ''Token B'', tx_tokenDecimal = Some ''6'',
       tx_value = Some ''500000'',
       tx_to = Some ''0xd8dA6BF26964aF9D7eEd9e03E53415D37aA96045''\<rparr>,
      \<lparr>tx_contractAddress = Some ''0xbbb'', tx_tokenSymbol = Some ''BBB'',
       tx_tokenName = Some ''Token B'', tx_tokenDecimal = Some ''6'',
       tx_value = Some ''1000000'',
       tx_to = Some ''0x1111111111111111111111111111111111111111''\<rparr>]"

definition example_tokens :: "rat tokens" where
  "example_tokens =
     [(''0xaaa'', \<lparr>symbol = ''AAA'', name = ''Token A'', address = ''0xaaa'',
                   buys = 1, sells = 0, buy_amount = FloatVal 1, sell_amount = IntZero\<rparr>),
      (''0xbbb'', \<lparr>symbol = ''BBB'', name = ''Token B'', address = ''0xbbb'',
                   buys = 1, sells = 2, buy_amount = FloatVal (1 / 2),
                   sell_amount = FloatVal (7 / 2)\<rparr>)]"





text \<open>
  A record that sends one whole token of 18 decimals to the wallet, and a record that
  sends 2.5 tokens of 6 decimals away from it.
\<close>

definition example_buy :: transfer where
  "example_buy =
     \<lparr>tx_contractAddress = Some ''0xaaa'', tx_tokenSymbol = Some ''AAA'',
      tx_tokenName = Some ''Token A'', tx_tokenDecimal = Some ''18'',
      tx_value = Some ''1000000000000000000'',
      tx_to = Some ''0xD8DA6BF26964AF9D7EED9E03E53415D37AA96045''\<rparr>"

definition example_sell :: transfer where
  "example_sell =
     \<lparr>tx_contractAddress = Some ''0xbbb'', tx_tokenSymbol = Some ''BBB'',
      tx_tokenName = Some ''Token B'', tx_tokenDecimal = Some ''6'',
      tx_value = Some ''2500000'',
      tx_to = Some ''0x1111111111111111111111111111111111111111''\<rparr>"

text \<open>A sell of the token at the given contract address, with every other key absent.\<close>

definition sell_of_token :: "string \<Rightarrow> transfer" where
  "sell_of_token a =
     \<lparr>tx_contractAddress = Some a, tx_tokenSymbol = None, tx_tokenName = None,
      tx_tokenDecimal = None, tx_value = None,
      tx_to = Some ''0x1111111111111111111111111111111111111111''\<rparr>"

text \<open>Ten transfers of nine tokens; only the ninth token has two.\<close>

definition gw_busy :: gateway where
  "gw_busy =
     \<lparr>get_eth_price = 3000, get_eth_balance = (\<lambda>w. 0),
      get_token_transactions =
        (\<lambda>w n. map sell_of_token
                  [''t1'', ''t2'', ''t3'', ''t4'', ''t5'', ''t6'', ''t7'', ''t8'', ''t9'', ''t9'']),
      get_token_info = (\<lambda>a. None)\<rparr>"

text \<open>The transfers of \<open>example_transfers\<close>, and pair data for every token.\<close>

definition gw_active :: gateway where
  "gw_active =
     \<lparr>get_eth_price = 3000, get_eth_balance = (\<lambda>w. 5 / 2),
      get_token_transactions = (\<lambda>w n. example_transfers),
      get_token_info =
        (\<lambda>a. Some \<lparr>info_name = ''Token'', info_symbol = ''TKN'', info_price = 2,
                     info_price_change_24h = - 1, info_volume_24h = 1000,
                     info_liquidity = 50000\<rparr>)\<rparr>"

text \<open>The reports expected for \<open>gw_busy\<close> and \<open>gw_active\<close>.\<close>

definition busy_report :: report where
  "busy_report =
     \<lparr>rep_short = ''0xd8da...6045'', rep_wallet = example_wallet,
      rep_eth_balance = 0, rep_eth_value_usd = 0,
      rep_activity =
        Some (map (\<lambda>(a, n). \<lparr>line_emoji = Red, line_symbol = ''???'',
                              line_action = ''SELLING'', line_buys = 0, line_sells = n,
                              line_address = a\<rparr>)
                [(''t9'', 2), (''t1'', 1), (''t2'', 1), (''t3'', 1), (''t4'', 1),
                 (''t5'', 1), (''t6'', 1), (''t7'', 1)]),
      rep_top_traded = None\<rparr>"

definition active_lines :: "token_line list" where
  "active_lines =
     [\<lparr>line_emoji = Red, line_symbol = ''BBB'', line_action = ''SELLING'',
       line_buys = 1, line_sells = 2, line_address = ''0xbbb''\<rparr>,
      \<lparr>line_emoji = Green, line_symbol = ''AAA'', line_action = ''BUYING'',
       line_buys = 1, line_sells = 0, line_address = ''0xaaa''\<rparr>]"

definition active_report :: report where
  "active_report =
     \<lparr>rep_short = ''0xd8da...6045'', rep_wallet = example_wallet,
      rep_eth_balance = 5 / 2, rep_eth_value_usd = 7500,
      rep_activity = Some active_lines,
      rep_top_traded =
        Some \<lparr>info_name = ''Token'', info_symbol = ''TKN'', info_price = 2,
              info_price_change_24h = - 1, info_volume_24h = 1000,
              info_liquidity = 50000\<rparr>\<rparr>"

text \<open>The address of the usage example after a space, and in capital hexadecimal digits.\<close>

definition padded_address :: string where
  "padded_address = '' 0xd8dA6BF26964aF9D7eEd9e03E53415D37aA96045''"

definition capital_address :: string where
  "capital_address = ''0xD8DA6BF26964AF9D7EED9E03E53415D37AA96045''"

text \<open>The address of the usage example after a no-break space.\<close>

definition nbsp_address :: string where
  "nbsp_address = CHR 0xA0 # ''0xd8dA6BF26964aF9D7eEd9e03E53415D37aA96045''"

text \<open>A pair record with a chain, a pair address and a 24-hour volume.\<close>

definition pair_of :: "string \<Rightarrow> string \<Rightarrow> 'f json \<Rightarrow> 'f json" where
  "pair_of chain a h24 =
     JObject [(''chainId'', JStr chain), (''pairAddress'', JStr a),
              (''volume'', JObject [(''h24'', h24)])]"

text \<open>Five pairs on \<^verbatim>\<open>base\<close> with the volumes 100, 50, 30, 10 and 5, and three other pairs.\<close>

definition example_pairs :: "rat json list" where
  "example_pairs =
     [pair_of ''base'' ''p3'' (JInt 30), pair_of ''ethereum'' ''e1'' (JInt 900),
      pair_of ''base'' ''p1'' (JFloat 100), pair_of ''Base'' ''x1'' (JInt 700),
      pair_of ''base'' ''p5'' (JStr ''5''), pair_of ''solana'' ''s1'' (JInt 800),
      pair_of ''base'' ''p2'' (JFloat 50), pair_of ''base'' ''p4'' (JInt 10)]"

text \<open>Two pairs on \<^verbatim>\<open>base\<close>; the volume of the second is a text that is not a number.\<close>

definition text_volume_pairs :: "rat json list" where
  "text_volume_pairs =
     [pair_of ''base'' ''p1'' (JInt 100), pair_of ''base'' ''p2'' (JStr ''n/a'')]"

text \<open>Two pairs on \<^verbatim>\<open>base\<close>; the second has null under \<^verbatim>\<open>volume\<close>.\<close>

definition null_volume_pairs :: "rat json list" where
  "null_volume_pairs =
     [pair_of ''base'' ''p1'' (JInt 100),
      JObject [(''chainId'', JStr ''base''), (''pairAddress'', JStr ''p2''),
               (''volume'', JNull)]]"

text \<open>Three pairs on \<^verbatim>\<open>base\<close> with no volume, a null volume figure and an empty one.\<close>

definition no_volume_pairs :: "rat json list" where
  "no_volume_pairs =
     [JObject [(''chainId'', JStr ''base''), (''pairAddress'', JStr ''q1'')],
      pair_of ''base'' ''q2'' JNull, pair_of ''base'' ''q3'' (JStr ''''),
      pair_of ''base'' ''q4'' (JInt 7)]"

section \<open>The result of the wallet analysis, case by case\<close>

lemma fwa_cases:
  "snd (format_wallet_analysis ops gw wallet) =
     (if get_token_transactions gw wallet 30 = [] \<and> get_eth_balance gw wallet = 0
      then Inr NoActivity
      else case fold_transfers ops wallet [] (get_token_transactions gw wallet 30) of
             Inl e \<Rightarrow> Inl e
           | Inr ts \<Rightarrow>
               if ts = [] then Inl UnboundLocalError
               else Inr (WalletAnalysis
                 \<lparr>rep_short = shorten_address wallet, rep_wallet = wallet,
                  rep_eth_balance = get_eth_balance gw wallet,
                  rep_eth_value_usd = get_eth_balance gw wallet * get_eth_price gw,
                  rep_activity =
                    Some (map render_token (take 8 (sorted_reverse activity (map snd ts)))),
                  rep_top_traded =
                    (case take 8 (sorted_reverse activity (map snd ts)) of
                       [] \<Rightarrow> None
                     | t # _ \<Rightarrow> get_token_info gw (address t))\<rparr>))"
  by (simp add: format_wallet_analysis_def Let_def split: sum.splits list.splits)

text \<open>
  C3. The analysis returns the "no activity" message exactly when the transfer list is
  empty and the balance is zero, and that message is not a populated report.
\<close>

theorem no_activity_iff:
  "(snd (format_wallet_analysis ops gw wallet) = Inr NoActivity \<longleftrightarrow>
      get_token_transactions gw wallet 30 = [] \<and> get_eth_balance gw wallet = 0) \<and>
   NoActivity \<noteq> WalletAnalysis r"
  by (simp add: fwa_cases split: sum.splits)

theorem no_activity_iff_witness:
  "snd (format_wallet_analysis example_ops gw_idle example_wallet) = Inr NoActivity \<and>
   snd (format_wallet_analysis example_ops gw_balance_only example_wallet) \<noteq> Inr NoActivity"
  using no_activity_iff [of example_ops gw_idle example_wallet]
    no_activity_iff [of example_ops gw_balance_only example_wallet]
  by (simp add: gw_idle_def gw_balance_only_def)

text \<open>
  C1. With no transfers and a balance other than zero the analysis does not return a
  report: \<^verbatim>\<open>tokens_seen\<close> is empty, so \<^verbatim>\<open>sorted_tokens\<close> is never assigned, and the
  test \<^verbatim>\<open>if sorted_tokens:\<close> on line 223 raises \<^verbatim>\<open>UnboundLocalError\<close>.
\<close>

theorem balance_only_raises:
  "get_token_transactions gw wallet 30 = [] \<Longrightarrow> get_eth_balance gw wallet \<noteq> 0 \<Longrightarrow>
     snd (format_wallet_analysis ops gw wallet) = Inl UnboundLocalError"
  by (simp add: fwa_cases)

theorem balance_only_raises_witness:
  "get_eth_balance gw_balance_only example_wallet = 5 / 2 \<and>
   snd (format_wallet_analysis example_ops gw_balance_only example_wallet) =
     Inl UnboundLocalError"
  using balance_only_raises [of gw_balance_only example_wallet example_ops]
  by (simp add: gw_balance_only_def)

section \<open>The fold over the transfer records\<close>

lemma map_fst_update_token [simp]: "map fst (update_token k f ts) = map fst ts"
  by (induction ts) (auto simp: update_token_def)

lemma map_of_update_token:
  "map_of (update_token k f ts) a = (if a = k then map_option f (map_of ts k) else map_of ts a)"
  by (induction ts) (auto simp: update_token_def)

lemma loop_body_Inr:
  assumes "loop_body ops wallet ts tx = Inr ts'"
  shows "\<exists>v. tx_amount ops tx = Inr v \<and>
           ts' = update_token (tx_key tx)
                 (if tx_is_buy wallet tx then add_buy ops v else add_sell ops v)
                 (if map_of ts (tx_key tx) = None
                  then ts @ [(tx_key tx, new_token (tx_get (tx_tokenSymbol tx) ''???'')
                                (tx_get (tx_tokenName tx) ''Unknown'') (tx_key tx))]
                  else ts)"
  using assms
  by (auto simp: loop_body_def Let_def tx_key_def split: sum.splits if_splits)


lemma loop_body_fails:
  "tx_amount ops tx = Inl e \<Longrightarrow> loop_body ops wallet ts tx = Inl e"
  by (simp add: loop_body_def Let_def)

lemma loop_body_keys:
  assumes "loop_body ops wallet ts tx = Inr ts'"
  shows "map fst ts' = (if tx_key tx \<in> set (map fst ts) then map fst ts else map fst ts @ [tx_key tx])"
proof -
  from loop_body_Inr[OF assms] obtain v where
    "ts' = update_token (tx_key tx)
                 (if tx_is_buy wallet tx then add_buy ops v else add_sell ops v)
                 (if map_of ts (tx_key tx) = None
                  then ts @ [(tx_key tx, new_token (tx_get (tx_tokenSymbol tx) ''???'')
                                (tx_get (tx_tokenName tx) ''Unknown'') (tx_key tx))]
                  else ts)"
    by blast
  then show ?thesis
    by (auto simp: map_of_eq_None_iff image_iff)
qed

lemma loop_body_distinct:
  "loop_body ops wallet ts tx = Inr ts' \<Longrightarrow> distinct (map fst ts) \<Longrightarrow> distinct (map fst ts')"
  by (drule loop_body_keys) (auto split: if_splits)

lemma loop_body_lookup:
  assumes "loop_body ops wallet ts tx = Inr ts'" and "tx_amount ops tx = Inr v"
  shows "map_of ts' a =
     (if a = tx_key tx
      then Some ((if tx_is_buy wallet tx then add_buy ops v else add_sell ops v)
                  (case map_of ts a of
                     None \<Rightarrow> new_token (tx_get (tx_tokenSymbol tx) ''???'')
                                (tx_get (tx_tokenName tx) ''Unknown'') a
                   | Some t \<Rightarrow> t))
      else map_of ts a)"
  using loop_body_Inr[OF assms(1)] assms(2)
  by (auto simp: map_of_update_token map_add_def split: option.splits)

lemma loop_body_cnt:
  assumes "loop_body ops wallet ts tx = Inr ts'"
  shows "cnt buys ts' a = cnt buys ts a + (if tx_key tx = a \<and> tx_is_buy wallet tx then 1 else 0)"
    and "cnt sells ts' a = cnt sells ts a + (if tx_key tx = a \<and> \<not> tx_is_buy wallet tx then 1 else 0)"
proof -
  from loop_body_Inr[OF assms] obtain v where v: "tx_amount ops tx = Inr v" by blast
  show "cnt buys ts' a = cnt buys ts a + (if tx_key tx = a \<and> tx_is_buy wallet tx then 1 else 0)"
    by (auto simp: cnt_def loop_body_lookup[OF assms v] add_buy_def add_sell_def new_token_def
             split: option.splits)
  show "cnt sells ts' a = cnt sells ts a + (if tx_key tx = a \<and> \<not> tx_is_buy wallet tx then 1 else 0)"
    by (auto simp: cnt_def loop_body_lookup[OF assms v] add_buy_def add_sell_def new_token_def
             split: option.splits)
qed

lemma loop_body_amt:
  assumes "loop_body ops wallet ts tx = Inr ts'" and "tx_amount ops tx = Inr v"
  shows "amt buy_amount ts' a =
           (if tx_key tx = a \<and> tx_is_buy wallet tx then add_amount ops (amt buy_amount ts a) v
            else amt buy_amount ts a)"
    and "amt sell_amount ts' a =
           (if tx_key tx = a \<and> \<not> tx_is_buy wallet tx then add_amount ops (amt sell_amount ts a) v
            else amt sell_amount ts a)"
  by (auto simp: amt_def loop_body_lookup[OF assms] add_buy_def add_sell_def new_token_def
           split: option.splits)

lemma fold_transfers_cnt:
  "fold_transfers ops wallet ts0 txs = Inr ts \<Longrightarrow>
     cnt buys ts a = cnt buys ts0 a + length (buys_of wallet a txs) \<and>
     cnt sells ts a = cnt sells ts0 a + length (sells_of wallet a txs)"
proof (induction txs arbitrary: ts0)
  case Nil
  then show ?case by (simp add: buys_of_def sells_of_def)
next
  case (Cons tx txs)
  from Cons.prems obtain ts1 where
    step: "loop_body ops wallet ts0 tx = Inr ts1" and
    rest: "fold_transfers ops wallet ts1 txs = Inr ts"
    by (auto split: sum.splits)
  show ?case
    using Cons.IH[OF rest] loop_body_cnt[OF step, of a]
    by (simp add: buys_of_def sells_of_def)
qed

lemma fold_transfers_amounts:
  "fold_transfers ops wallet ts0 txs = Inr ts \<Longrightarrow>
     \<exists>vs. map (tx_amount ops) txs = map Inr vs"
proof (induction txs arbitrary: ts0)
  case Nil
  then show ?case by simp
next
  case (Cons tx txs)
  from Cons.prems obtain ts1 where
    step: "loop_body ops wallet ts0 tx = Inr ts1" and
    rest: "fold_transfers ops wallet ts1 txs = Inr ts"
    by (auto split: sum.splits)
  from loop_body_Inr[OF step] obtain v where v: "tx_amount ops tx = Inr v" by blast
  from Cons.IH[OF rest] obtain vs where "map (tx_amount ops) txs = map Inr vs" by blast
  with v have "map (tx_amount ops) (tx # txs) = map Inr (v # vs)" by simp
  then show ?case by blast
qed

lemma fold_transfers_amt:
  "fold_transfers ops wallet ts0 txs = Inr ts \<Longrightarrow>
     \<exists>bs ss. map (tx_amount ops) (buys_of wallet a txs) = map Inr bs \<and>
             map (tx_amount ops) (sells_of wallet a txs) = map Inr ss \<and>
             amt buy_amount ts a = foldl (add_amount ops) (amt buy_amount ts0 a) bs \<and>
             amt sell_amount ts a = foldl (add_amount ops) (amt sell_amount ts0 a) ss"
proof (induction txs arbitrary: ts0)
  case Nil
  then show ?case by (simp add: buys_of_def sells_of_def)
next
  case (Cons tx txs)
  from Cons.prems obtain ts1 where
    step: "loop_body ops wallet ts0 tx = Inr ts1" and
    rest: "fold_transfers ops wallet ts1 txs = Inr ts"
    by (auto split: sum.splits)
  from loop_body_Inr[OF step] obtain v where v: "tx_amount ops tx = Inr v" by blast
  from Cons.IH[OF rest] obtain bs ss where
    bs: "map (tx_amount ops) (buys_of wallet a txs) = map Inr bs" and
    ss: "map (tx_amount ops) (sells_of wallet a txs) = map Inr ss" and
    b: "amt buy_amount ts a = foldl (add_amount ops) (amt buy_amount ts1 a) bs" and
    s: "amt sell_amount ts a = foldl (add_amount ops) (amt sell_amount ts1 a) ss"
    by blast
  note st = loop_body_amt[OF step v, of a]
  consider (buy) "tx_key tx = a" "tx_is_buy wallet tx"
    | (sell) "tx_key tx = a" "\<not> tx_is_buy wallet tx"
    | (other) "tx_key tx \<noteq> a"
    by blast
  then show ?case
  proof cases
    case buy
    then have "map (tx_amount ops) (buys_of wallet a (tx # txs)) = map Inr (v # bs)"
      and "map (tx_amount ops) (sells_of wallet a (tx # txs)) = map Inr ss"
      using v bs ss by (simp_all add: buys_of_def sells_of_def)
    moreover have "amt buy_amount ts a = foldl (add_amount ops) (amt buy_amount ts0 a) (v # bs)"
      and "amt sell_amount ts a = foldl (add_amount ops) (amt sell_amount ts0 a) ss"
      using buy b s st by simp_all
    ultimately show ?thesis by blast
  next
    case sell
    then have "map (tx_amount ops) (buys_of wallet a (tx # txs)) = map Inr bs"
      and "map (tx_amount ops) (sells_of wallet a (tx # txs)) = map Inr (v # ss)"
      using v bs ss by (simp_all add: buys_of_def sells_of_def)
    moreover have "amt buy_amount ts a = foldl (add_amount ops) (amt buy_amount ts0 a) bs"
      and "amt sell_amount ts a = foldl (add_amount ops) (amt sell_amount ts0 a) (v # ss)"
      using sell b s st by simp_all
    ultimately show ?thesis by blast
  next
    case other
    then have "map (tx_amount ops) (buys_of wallet a (tx # txs)) = map Inr bs"
      and "map (tx_amount ops) (sells_of wallet a (tx # txs)) = map Inr ss"
      using bs ss by (simp_all add: buys_of_def sells_of_def)
    moreover have "amt buy_amount ts a = foldl (add_amount ops) (amt buy_amount ts0 a) bs"
      and "amt sell_amount ts a = foldl (add_amount ops) (amt sell_amount ts0 a) ss"
      using other b s st by simp_all
    ultimately show ?thesis by blast
  qed
qed

lemma foldl_add_amount_FloatVal:
  "foldl (add_amount ops) (FloatVal x) vs = FloatVal (foldl (float_add ops) x vs)"
  by (induction vs arbitrary: x) (simp_all add: add_amount_def)

lemma foldl_add_amount_IntZero:
  "foldl (add_amount ops) IntZero vs = float_sum ops vs"
  by (cases vs) (simp_all add: float_sum_def foldl_add_amount_FloatVal add_amount_def)

lemma fold_transfers_keys:
  "fold_transfers ops wallet ts0 txs = Inr ts \<Longrightarrow> distinct (map fst ts0) \<Longrightarrow>
     distinct (map fst ts) \<and> set (map fst ts) = set (map fst ts0) \<union> tx_key ` set txs"
proof (induction txs arbitrary: ts0)
  case Nil
  then show ?case by simp
next
  case (Cons tx txs)
  from Cons.prems obtain ts1 where
    step: "loop_body ops wallet ts0 tx = Inr ts1" and
    rest: "fold_transfers ops wallet ts1 txs = Inr ts"
    by (auto split: sum.splits)
  have d1: "distinct (map fst ts1)"
    using loop_body_distinct[OF step] Cons.prems(2) .
  have k1: "set (map fst ts1) = insert (tx_key tx) (set (map fst ts0))"
    using loop_body_keys[OF step] by (auto split: if_splits)
  show ?case
    using Cons.IH[OF rest d1] k1 by auto
qed

lemma sum_list_tokens_cnt:
  assumes "distinct (map fst ts)"
  shows "sum_list (map (\<lambda>p. f (snd p)) ts) = (\<Sum>a\<in>set (map fst ts). cnt f ts a)"
proof -
  have "map (\<lambda>p. f (snd p)) ts = map (cnt f ts) (map fst ts)"
    using assms by (auto simp: cnt_def)
  then have "sum_list (map (\<lambda>p. f (snd p)) ts) = sum_list (map (cnt f ts) (map fst ts))"
    by (rule arg_cong)
  also have "\<dots> = (\<Sum>a\<in>set (map fst ts). cnt f ts a)"
    using assms by (rule sum_list_distinct_conv_sum_set)
  finally show ?thesis .
qed

lemma sum_length_filter_keys:
  "finite K \<Longrightarrow> tx_key ` set txs \<subseteq> K \<Longrightarrow>
     (\<Sum>a\<in>K. length (filter (\<lambda>tx. tx_key tx = a \<and> P tx) txs)) = length (filter P txs)"
proof (induction txs)
  case Nil
  then show ?case by simp
next
  case (Cons tx txs)
  have "(\<Sum>a\<in>K. length (filter (\<lambda>tx. tx_key tx = a \<and> P tx) (tx # txs))) =
        (\<Sum>a\<in>K. (if a = tx_key tx then (if P tx then 1 else 0) else 0) +
                  length (filter (\<lambda>tx. tx_key tx = a \<and> P tx) txs))"
    by (intro sum.cong) auto
  also have "\<dots> = (if P tx then 1 else 0) + length (filter P txs)"
    using Cons by (simp add: sum.distrib)
  finally show ?case by simp
qed

lemma fold_transfers_totals:
  assumes "fold_transfers ops wallet [] txs = Inr ts"
  shows "sum_list (map (\<lambda>p. buys (snd p)) ts) = length (filter (tx_is_buy wallet) txs)"
    and "sum_list (map (\<lambda>p. sells (snd p)) ts) = length (filter (\<lambda>tx. \<not> tx_is_buy wallet tx) txs)"
proof -
  have d: "distinct (map fst ts)" and k: "set (map fst ts) = tx_key ` set txs"
    using fold_transfers_keys[OF assms] by simp_all
  have c: "cnt buys ts a = length (buys_of wallet a txs)"
          "cnt sells ts a = length (sells_of wallet a txs)" for a
    using fold_transfers_cnt[OF assms, of a] by (simp_all add: cnt_def)
  show "sum_list (map (\<lambda>p. buys (snd p)) ts) = length (filter (tx_is_buy wallet) txs)"
    unfolding sum_list_tokens_cnt[OF d] c k buys_of_def
    by (rule sum_length_filter_keys) simp_all
  show "sum_list (map (\<lambda>p. sells (snd p)) ts) = length (filter (\<lambda>tx. \<not> tx_is_buy wallet tx) txs)"
    unfolding sum_list_tokens_cnt[OF d] c k sells_of_def
    by (rule sum_length_filter_keys) simp_all
qed

lemma length_filter_split:
  "length (filter P xs) + length (filter (\<lambda>x. \<not> P x) xs) = length xs"
  by (induction xs) auto

lemma example_fold:
  "fold_transfers example_ops example_wallet [] example_transfers = Inr example_tokens"
  by code_simp

lemma example_amounts:
  "map (tx_amount example_ops) example_transfers = map Inr [1, 5 / 2, 1 / 2, 1]"
  by code_simp

text \<open>
  C2. When the fold succeeds, the buy and sell counts of all summaries add up to the number
  of records; the keys are the contract addresses seen, each once; and the summary of an
  address counts its buys and its sells, and its two amounts are the float sums of their
  decimal-adjusted values, added from the left in the order of the records.
\<close>

theorem fold_counts:
  assumes "fold_transfers ops wallet [] txs = Inr ts"
  shows "sum_list (map (buys \<circ> snd) ts) + sum_list (map (sells \<circ> snd) ts) = length txs \<and>
         distinct (map fst ts) \<and> set (map fst ts) = tx_key ` set txs \<and>
         (\<forall>(a, t) \<in> set ts.
            buys t = length (buys_of wallet a txs) \<and>
            sells t = length (sells_of wallet a txs) \<and>
            buys t + sells t = length (filter (\<lambda>tx. tx_key tx = a) txs) \<and>
            (\<exists>bs ss.
               map (tx_amount ops) (buys_of wallet a txs) = map Inr bs \<and>
               map (tx_amount ops) (sells_of wallet a txs) = map Inr ss \<and>
               buy_amount t =
                 (if bs = [] then IntZero
                  else FloatVal (foldl (float_add ops) (float_zero ops) bs)) \<and>
               sell_amount t =
                 (if ss = [] then IntZero
                  else FloatVal (foldl (float_add ops) (float_zero ops) ss))))"
proof -
  have d: "distinct (map fst ts)" and k: "set (map fst ts) = tx_key ` set txs"
    using fold_transfers_keys[OF assms] by simp_all
  have tot: "sum_list (map (buys \<circ> snd) ts) + sum_list (map (sells \<circ> snd) ts) = length txs"
    using fold_transfers_totals[OF assms] length_filter_split[of "tx_is_buy wallet" txs]
    by (simp add: comp_def)
  have per: "buys t = length (buys_of wallet a txs) \<and>
            sells t = length (sells_of wallet a txs) \<and>
            buys t + sells t = length (filter (\<lambda>tx. tx_key tx = a) txs) \<and>
            (\<exists>bs ss.
               map (tx_amount ops) (buys_of wallet a txs) = map Inr bs \<and>
               map (tx_amount ops) (sells_of wallet a txs) = map Inr ss \<and>
               buy_amount t =
                 (if bs = [] then IntZero
                  else FloatVal (foldl (float_add ops) (float_zero ops) bs)) \<and>
               sell_amount t =
                 (if ss = [] then IntZero
                  else FloatVal (foldl (float_add ops) (float_zero ops) ss)))"
    if "(a, t) \<in> set ts" for a t
  proof -
    have m: "map_of ts a = Some t" using d that by simp
    have s: "length (buys_of wallet a txs) + length (sells_of wallet a txs) =
             length (filter (\<lambda>tx. tx_key tx = a) txs)"
      unfolding buys_of_def sells_of_def by (induction txs) auto
    have c: "buys t = length (buys_of wallet a txs)" "sells t = length (sells_of wallet a txs)"
      using fold_transfers_cnt[OF assms, of a] m by (simp_all add: cnt_def)
    from fold_transfers_amt[OF assms, of a] obtain bs ss where
      bs: "map (tx_amount ops) (buys_of wallet a txs) = map Inr bs" and
      ss: "map (tx_amount ops) (sells_of wallet a txs) = map Inr ss" and
      b: "amt buy_amount ts a = foldl (add_amount ops) (amt buy_amount [] a) bs" and
      s': "amt sell_amount ts a = foldl (add_amount ops) (amt sell_amount [] a) ss"
      by blast
    have "buy_amount t = float_sum ops bs" "sell_amount t = float_sum ops ss"
      using b s' m by (simp_all add: amt_def foldl_add_amount_IntZero)
    then have am: "\<exists>bs ss.
               map (tx_amount ops) (buys_of wallet a txs) = map Inr bs \<and>
               map (tx_amount ops) (sells_of wallet a txs) = map Inr ss \<and>
               buy_amount t =
                 (if bs = [] then IntZero
                  else FloatVal (foldl (float_add ops) (float_zero ops) bs)) \<and>
               sell_amount t =
                 (if ss = [] then IntZero
                  else FloatVal (foldl (float_add ops) (float_zero ops) ss))"
      using bs ss unfolding float_sum_def by blast
    have both: "buys t + sells t = length (filter (\<lambda>tx. tx_key tx = a) txs)"
      using c s by simp
    show ?thesis
      using c both am by (intro conjI)
  qed
  show ?thesis using d k tot per by blast
qed

theorem fold_counts_witness:
  "fold_transfers example_ops example_wallet [] example_transfers = Inr example_tokens \<and>
   sum_list (map (buys \<circ> snd) example_tokens) + sum_list (map (sells \<circ> snd) example_tokens) =
     length example_transfers \<and>
   length example_transfers = 4 \<and>
   map (tx_amount example_ops) example_transfers = map Inr [1, 5 / 2, 1 / 2, 1] \<and>
   map (\<lambda>(a, t). (a, buy_amount t, sell_amount t)) example_tokens =
     [(''0xaaa'', FloatVal 1, IntZero), (''0xbbb'', FloatVal (1 / 2), FloatVal (7 / 2))]"
  using fold_counts [OF example_fold] example_fold example_amounts
  by (simp add: example_transfers_def example_tokens_def)

section \<open>Single records and absent fields\<close>

lemma tx_amount_Inr:
  "tx_amount ops tx = Inr x \<longleftrightarrow>
     (\<exists>d v. tx_get_int (tx_tokenDecimal tx) 18 = Inr d \<and> tx_get_int (tx_value tx) 0 = Inr v \<and>
            (if 0 \<le> d then int_div ops v (10 ^ nat d) = Inr x
             else \<exists>p. pow10_float ops d = Inr p \<and> int_div_float ops v p = Inr x))"
  by (auto simp: tx_amount_def split: sum.splits)

text \<open>
  C4. A record that the loop body accepts has as its amount the integer of its value
  divided by ten to the power of its decimals: by the integer \<open>10 ^ d\<close> for decimals from
  0 on, by the float \<^verbatim>\<open>10 ** d\<close> for negative ones. It adds one to the buy count and its
  amount to the buy amount of its token when its \<^verbatim>\<open>to\<close> field equals the wallet up to
  letter case; otherwise it adds them to the sell count and the sell amount.
\<close>

theorem record_classified:
  assumes "loop_body ops wallet ts tx = Inr ts'"
  shows "\<exists>d v x.
           tx_get_int (tx_tokenDecimal tx) 18 = Inr d \<and>
           tx_get_int (tx_value tx) 0 = Inr v \<and>
           (if 0 \<le> d then int_div ops v (10 ^ nat d) = Inr x
            else \<exists>p. pow10_float ops d = Inr p \<and> int_div_float ops v p = Inr x) \<and>
           (if lower (tx_get (tx_to tx) '''') = lower wallet
            then cnt buys ts' (tx_get (tx_contractAddress tx) '''') =
                   cnt buys ts (tx_get (tx_contractAddress tx) '''') + 1 \<and>
                 amt buy_amount ts' (tx_get (tx_contractAddress tx) '''') =
                   FloatVal (float_add ops
                     (case amt buy_amount ts (tx_get (tx_contractAddress tx) '''') of
                        IntZero \<Rightarrow> float_zero ops
                      | FloatVal y \<Rightarrow> y) x) \<and>
                 cnt sells ts' (tx_get (tx_contractAddress tx) '''') =
                   cnt sells ts (tx_get (tx_contractAddress tx) '''') \<and>
                 amt sell_amount ts' (tx_get (tx_contractAddress tx) '''') =
                   amt sell_amount ts (tx_get (tx_contractAddress tx) '''')
            else cnt sells ts' (tx_get (tx_contractAddress tx) '''') =
                   cnt sells ts (tx_get (tx_contractAddress tx) '''') + 1 \<and>
                 amt sell_amount ts' (tx_get (tx_contractAddress tx) '''') =
                   FloatVal (float_add ops
                     (case amt sell_amount ts (tx_get (tx_contractAddress tx) '''') of
                        IntZero \<Rightarrow> float_zero ops
                      | FloatVal y \<Rightarrow> y) x) \<and>
                 cnt buys ts' (tx_get (tx_contractAddress tx) '''') =
                   cnt buys ts (tx_get (tx_contractAddress tx) '''') \<and>
                 amt buy_amount ts' (tx_get (tx_contractAddress tx) '''') =
                   amt buy_amount ts (tx_get (tx_contractAddress tx) ''''))"
proof -
  from loop_body_Inr[OF assms] obtain x where x: "tx_amount ops tx = Inr x" by blast
  then obtain d v where
    dv: "tx_get_int (tx_tokenDecimal tx) 18 = Inr d" "tx_get_int (tx_value tx) 0 = Inr v"
        "if 0 \<le> d then int_div ops v (10 ^ nat d) = Inr x
         else \<exists>p. pow10_float ops d = Inr p \<and> int_div_float ops v p = Inr x"
    unfolding tx_amount_Inr by blast
  have k: "tx_get (tx_contractAddress tx) '''' = tx_key tx" by (simp add: tx_key_def)
  show ?thesis
    unfolding k
    using dv loop_body_cnt[OF assms, of "tx_key tx"] loop_body_amt[OF assms x, of "tx_key tx"]
    by (intro exI[of _ d] exI[of _ v] exI[of _ x])
       (simp add: tx_is_buy_def[symmetric] add_amount_def)
qed

lemma example_buy_step:
  "loop_body example_ops example_wallet [] example_buy =
     Inr [(''0xaaa'', \<lparr>symbol = ''AAA'', name = ''Token A'', address = ''0xaaa'',
                      buys = 1, sells = 0, buy_amount = FloatVal 1,
                      sell_amount = IntZero\<rparr>)]"
  by code_simp

lemma example_sell_step:
  "loop_body example_ops example_wallet [] example_sell =
     Inr [(''0xbbb'', \<lparr>symbol = ''BBB'', name = ''Token B'', address = ''0xbbb'',
                      buys = 0, sells = 1, buy_amount = IntZero,
                      sell_amount = FloatVal (5 / 2)\<rparr>)]"
  by code_simp

theorem record_classified_witness:
  "loop_body example_ops example_wallet [] example_buy =
     Inr [(''0xaaa'', \<lparr>symbol = ''AAA'', name = ''Token A'', address = ''0xaaa'',
                      buys = 1, sells = 0, buy_amount = FloatVal 1,
                      sell_amount = IntZero\<rparr>)] \<and>
   tx_value example_buy = Some ''1000000000000000000'' \<and>
   tx_tokenDecimal example_buy = Some ''18'' \<and>
   tx_amount example_ops example_buy = Inr 1 \<and>
   loop_body example_ops example_wallet [] example_sell =
     Inr [(''0xbbb'', \<lparr>symbol = ''BBB'', name = ''Token B'', address = ''0xbbb'',
                      buys = 0, sells = 1, buy_amount = IntZero,
                      sell_amount = FloatVal (5 / 2)\<rparr>)] \<and>
   tx_value example_sell = Some ''2500000'' \<and>
   tx_tokenDecimal example_sell = Some ''6'' \<and>
   tx_amount example_ops example_sell = Inr (5 / 2)"
proof -
  have a: "tx_amount example_ops example_buy = Inr 1"
    "tx_amount example_ops example_sell = Inr (5 / 2)"
    by code_simp+
  show ?thesis
    using record_classified [OF example_buy_step] record_classified [OF example_sell_step]
      example_buy_step example_sell_step a
    by (simp add: example_buy_def example_sell_def)
qed










section \<open>Ranking and rendering\<close>

lemma sorted_reverse_props:
  "mset (sorted_reverse key xs) = mset xs"
  "sorted_wrt (\<lambda>x y. key y \<le> key x) (sorted_reverse key xs)"
proof -
  show "mset (sorted_reverse key xs) = mset xs"
    by (simp add: sorted_reverse_def)
  have "sorted (map (\<lambda>x. - int (key x)) (sorted_reverse key xs))"
    unfolding sorted_reverse_def by (rule sorted_sort_key)
  then show "sorted_wrt (\<lambda>x y. key y \<le> key x) (sorted_reverse key xs)"
    by (simp add: sorted_map)
qed

lemma fwa_report:
  assumes "snd (format_wallet_analysis ops gw wallet) = Inr (WalletAnalysis r)"
  shows "\<exists>ts. fold_transfers ops wallet [] (get_token_transactions gw wallet 30) = Inr ts \<and> ts \<noteq> [] \<and>
           rep_activity r =
             Some (map render_token (take 8 (sorted_reverse activity (map snd ts)))) \<and>
           rep_top_traded r =
             (case take 8 (sorted_reverse activity (map snd ts)) of
                [] \<Rightarrow> None
              | t # _ \<Rightarrow> get_token_info gw (address t))"
  using assms unfolding fwa_cases
  by (auto split: if_splits sum.splits)

text \<open>
  C5. The token section of a report lists the summaries of the fold sorted by descending
  activity (buys plus sells) and cut to the first eight; every summary kept is at least
  as active as every summary dropped.
\<close>

theorem report_ranked:
  assumes "snd (format_wallet_analysis ops gw wallet) = Inr (WalletAnalysis r)"
  shows "\<exists>ts ranked.
           fold_transfers ops wallet [] (get_token_transactions gw wallet 30) = Inr ts \<and>
           mset ranked = mset (map snd ts) \<and>
           sorted_wrt (\<lambda>x y. buys x + sells x \<ge> buys y + sells y) ranked \<and>
           rep_activity r = Some (map render_token (take 8 ranked)) \<and>
           length (take 8 ranked) = min 8 (length ts) \<and>
           (\<forall>x \<in> set (take 8 ranked). \<forall>y \<in> set (drop 8 ranked).
              buys y + sells y \<le> buys x + sells x)"
proof -
  from fwa_report[OF assms] obtain ts where
    f: "fold_transfers ops wallet [] (get_token_transactions gw wallet 30) = Inr ts" and
    a: "rep_activity r = Some (map render_token (take 8 (sorted_reverse activity (map snd ts))))"
    by blast
  define ranked where "ranked = sorted_reverse activity (map snd ts)"
  have m: "mset ranked = mset (map snd ts)"
    unfolding ranked_def by (rule sorted_reverse_props)
  have s: "sorted_wrt (\<lambda>x y. buys x + sells x \<ge> buys y + sells y) ranked"
    using sorted_reverse_props(2)[of activity "map snd ts"]
    by (simp add: ranked_def activity_def)
  have l: "length ranked = length ts"
    using m by (metis length_map size_mset)
  have "sorted_wrt (\<lambda>x y. buys x + sells x \<ge> buys y + sells y) (take 8 ranked @ drop 8 ranked)"
    using s by simp
  then have d: "\<forall>x \<in> set (take 8 ranked). \<forall>y \<in> set (drop 8 ranked).
              buys y + sells y \<le> buys x + sells x"
    unfolding sorted_wrt_append by blast
  show ?thesis
    using f m s a l d unfolding ranked_def[symmetric] by (intro exI[of _ ts] exI[of _ ranked]) simp
qed

lemma busy_eval:
  "snd (format_wallet_analysis example_ops gw_busy example_wallet) = Inr (WalletAnalysis busy_report)"
  by code_simp

theorem report_ranked_witness:
  "snd (format_wallet_analysis example_ops gw_busy example_wallet) = Inr (WalletAnalysis busy_report) \<and>
   length (get_token_transactions gw_busy example_wallet 30) = 10 \<and>
   map_option (map (\<lambda>l. (line_address l, line_buys l + line_sells l))) (rep_activity busy_report) =
     Some [(''t9'', 2), (''t1'', 1), (''t2'', 1), (''t3'', 1), (''t4'', 1),
           (''t5'', 1), (''t6'', 1), (''t7'', 1)]"
  using report_ranked [OF busy_eval] busy_eval
  by (simp add: busy_report_def gw_busy_def)

text \<open>
  C6. Every line of the token section shows the counts of one summary of the fold, with
  the label BUYING when it has more buys than sells, SELLING when it has more sells than
  buys, and MIXED when the two counts are equal.
\<close>

theorem report_actions:
  assumes "snd (format_wallet_analysis ops gw wallet) = Inr (WalletAnalysis r)"
    and "rep_activity r = Some ls" and "l \<in> set ls"
  shows "\<exists>ts t. fold_transfers ops wallet [] (get_token_transactions gw wallet 30) = Inr ts \<and>
           t \<in> snd ` set ts \<and> line_symbol l = symbol t \<and>
           line_buys l = buys t \<and> line_sells l = sells t \<and>
           line_action l =
             (if buys t > sells t then ''BUYING''
              else if sells t > buys t then ''SELLING''
              else ''MIXED'')"
proof -
  from fwa_report[OF assms(1)] obtain ts where
    f: "fold_transfers ops wallet [] (get_token_transactions gw wallet 30) = Inr ts" and
    a: "rep_activity r = Some (map render_token (take 8 (sorted_reverse activity (map snd ts))))"
    by blast
  from a assms(2,3) obtain t where
    t: "t \<in> set (take 8 (sorted_reverse activity (map snd ts)))" and lt: "l = render_token t"
    by auto
  have "t \<in> set (sorted_reverse activity (map snd ts))"
    using t by (rule in_set_takeD)
  then have "t \<in> set (map snd ts)"
    by (simp add: sorted_reverse_def)
  then have ts: "t \<in> snd ` set ts" by simp
  show ?thesis
    using f ts unfolding lt
    by (intro exI[of _ ts] exI[of _ t]) (simp add: render_token_def)
qed

lemma active_eval:
  "snd (format_wallet_analysis example_ops gw_active example_wallet) = Inr (WalletAnalysis active_report)"
  by code_simp

theorem report_actions_witness:
  "snd (format_wallet_analysis example_ops gw_active example_wallet) = Inr (WalletAnalysis active_report) \<and>
   map_option (map (\<lambda>l. (line_buys l, line_sells l, line_action l))) (rep_activity active_report) =
     Some [(1, 2, ''SELLING''), (1, 0, ''BUYING'')]"
  using report_actions [OF active_eval, of active_lines "hd active_lines"] active_eval
  by (simp add: active_report_def active_lines_def)

section \<open>Validation of the message text\<close>

lemma strip_last_not_space: "strip s \<noteq> [] \<Longrightarrow> \<not> isspace (last (strip s))"
proof -
  define w where "w = dropWhile isspace (rev (dropWhile isspace s))"
  assume "strip s \<noteq> []"
  then have "w \<noteq> []" by (simp add: strip_def w_def)
  then have "\<not> isspace (hd w)" unfolding w_def by (rule hd_dropWhile)
  moreover have "last (strip s) = hd w"
    using \<open>w \<noteq> []\<close> by (simp add: strip_def w_def[symmetric] last_rev)
  ultimately show ?thesis by simp
qed

lemma re_match_wallet_iff:
  "re_match_wallet text \<longleftrightarrow>
     is_wallet_address text \<or> (is_wallet_address (butlast text) \<and> text \<noteq> [] \<and> last text = CHR 0x0A)"
proof -
  have a: "drop 42 text = [] \<longleftrightarrow> length text \<le> 42" by simp
  have b: "drop 42 text = [CHR 0x0A] \<longleftrightarrow> length text = 43 \<and> last text = CHR 0x0A"
  proof
    assume h: "drop 42 text = [CHR 0x0A]"
    then have "length (drop 42 text) = 1" by simp
    then have l: "length text = 43" by simp
    then have "last text = last (drop 42 text)" by (simp add: last_drop)
    then show "length text = 43 \<and> last text = CHR 0x0A" using l h by simp
  next
    assume h: "length text = 43 \<and> last text = CHR 0x0A"
    then have "length (drop 42 text) = 1" by simp
    then obtain c where c: "drop 42 text = [c]"
      by (cases "drop 42 text") auto
    have "last text = last (drop 42 text)" using h by (simp add: last_drop)
    then show "drop 42 text = [CHR 0x0A]" using c h by simp
  qed
  have c: "length text = 43 \<Longrightarrow> take 40 (drop 2 text) = drop 2 (butlast text)"
    by (simp add: butlast_conv_take drop_take)
  have d: "length text = 43 \<Longrightarrow> take 2 (butlast text) = take 2 text"
    by (simp add: butlast_conv_take)
  show ?thesis
    unfolding re_match_wallet_def is_wallet_address_def a b
    using c d by (auto simp: min_def)
qed

lemma re_match_wallet_strip: "re_match_wallet (strip t) \<longleftrightarrow> is_wallet_address (strip t)"
proof -
  have "\<not> (strip t \<noteq> [] \<and> last (strip t) = CHR 0x0A)"
    using strip_last_not_space[of t] by (auto simp: isspace_def)
  then show ?thesis unfolding re_match_wallet_iff by blast
qed

lemma format_wallet_analysis_calls:
  "fst (format_wallet_analysis ops gw wallet) \<noteq> []"
  by (simp add: format_wallet_analysis_def Let_def split: sum.splits list.splits option.splits)

text \<open>
  C8, as the code has it. The analysis starts exactly when the text, with the whitespace
  at both ends removed as \<^verbatim>\<open>str.strip\<close> removes it, is \<^verbatim>\<open>0x\<close> followed by 40
  hexadecimal characters; it then makes upstream calls. Every other text gets the one
  reply with the usage example, and no upstream call is made.
\<close>

theorem handle_message_validation:
  "(Analyzing \<in> set (replies (handle_message ops gw t)) \<longleftrightarrow> is_wallet_address (strip t)) \<and>
   (gateway_calls (handle_message ops gw t) \<noteq> [] \<longleftrightarrow> is_wallet_address (strip t)) \<and>
   (if is_wallet_address (strip t)
    then hd (replies (handle_message ops gw t)) = Analyzing \<and>
         gateway_calls (handle_message ops gw t) = fst (format_wallet_analysis ops gw (lower (strip t)))
    else handle_message ops gw t =
           \<lparr>replies = [InvalidAddress usage_example], gateway_calls = [], raised = None\<rparr>) \<and>
   is_wallet_address usage_example"
proof -
  have u: "is_wallet_address usage_example"
    by (simp add: is_wallet_address_def usage_example_def ishex_def)
  show ?thesis
  proof (cases "is_wallet_address (strip t)")
    case True
    then have m: "re_match_wallet (strip t)" by (simp add: re_match_wallet_strip)
    obtain calls res where f: "format_wallet_analysis ops gw (lower (strip t)) = (calls, res)"
      by (cases "format_wallet_analysis ops gw (lower (strip t))")
    have "calls \<noteq> []" using format_wallet_analysis_calls[of ops gw "lower (strip t)"] f by simp
    then show ?thesis
      using True m f u by (cases res) (simp_all add: handle_message_def Let_def)
  next
    case False
    then have m: "\<not> re_match_wallet (strip t)" by (simp add: re_match_wallet_strip)
    show ?thesis using False m u by (simp add: handle_message_def Let_def)
  qed
qed

lemma handle_usage_example:
  "handle_message example_ops gw_idle usage_example =
     \<lparr>replies = [Analyzing, Analysis NoActivity],
      gateway_calls = [GetEthPrice, GetEthBalance example_wallet,
                       GetTokenTransactions example_wallet 30],
      raised = None\<rparr>"
  by code_simp

lemma handle_nbsp_address:
  "handle_message example_ops gw_idle nbsp_address =
     \<lparr>replies = [Analyzing, Analysis NoActivity],
      gateway_calls = [GetEthPrice, GetEthBalance example_wallet,
                       GetTokenTransactions example_wallet 30],
      raised = None\<rparr>"
  by code_simp

lemma strip_short_texts:
  "strip ''0x123'' = ''0x123''" "strip ''not-an-address'' = ''not-an-address''"
  by code_simp+

theorem handle_message_validation_witness:
  "handle_message example_ops gw_idle usage_example =
     \<lparr>replies = [Analyzing, Analysis NoActivity],
      gateway_calls = [GetEthPrice, GetEthBalance example_wallet,
                       GetTokenTransactions example_wallet 30],
      raised = None\<rparr> \<and>
   handle_message example_ops gw_idle nbsp_address =
     \<lparr>replies = [Analyzing, Analysis NoActivity],
      gateway_calls = [GetEthPrice, GetEthBalance example_wallet,
                       GetTokenTransactions example_wallet 30],
      raised = None\<rparr> \<and>
   handle_message example_ops gw_idle ''0x123'' =
     \<lparr>replies = [InvalidAddress usage_example], gateway_calls = [], raised = None\<rparr> \<and>
   handle_message example_ops gw_idle ''not-an-address'' =
     \<lparr>replies = [InvalidAddress usage_example], gateway_calls = [], raised = None\<rparr>"
  using handle_message_validation [of example_ops gw_idle "''0x123''"]
    handle_message_validation [of example_ops gw_idle "''not-an-address''"]
    handle_usage_example handle_nbsp_address
  by (simp add: strip_short_texts is_wallet_address_def)

text \<open>
  The statement of C8 without the stripping fails: a text that starts with a space is not
  \<^verbatim>\<open>0x\<close> followed by 40 hexadecimal characters, and the handler still starts the
  analysis and calls upstream.
\<close>

theorem padded_address_counterexample:
  "\<not> is_wallet_address padded_address \<and>
   handle_message example_ops gw_idle padded_address =
     \<lparr>replies = [Analyzing, Analysis NoActivity],
      gateway_calls = [GetEthPrice, GetEthBalance example_wallet,
                       GetTokenTransactions example_wallet 30],
      raised = None\<rparr>"
  by code_simp

lemma isspace_lower_char: "isspace (lower_char c) = isspace c"
  by (auto simp: lower_char_def isspace_def)

lemma dropWhile_isspace_lower:
  "dropWhile isspace (map lower_char xs) = map lower_char (dropWhile isspace xs)"
  by (induction xs) (simp_all add: isspace_lower_char)

lemma lower_strip: "lower (strip t) = strip (lower t)"
  by (simp add: strip_def lower_def dropWhile_isspace_lower rev_map)

text \<open>
  C10. Two messages that differ only in letter case and are accepted get the same replies
  through the same upstream calls: the handler passes the lowercased text to the analysis.
\<close>

theorem casing_independent:
  assumes "is_wallet_address (strip t1)" and "is_wallet_address (strip t2)"
    and "lower t1 = lower t2"
  shows "handle_message ops gw t1 = handle_message ops gw t2"
proof -
  have "lower (strip t1) = lower (strip t2)"
    using assms(3) by (simp add: lower_strip)
  then show ?thesis
    using assms(1,2) by (simp add: handle_message_def Let_def re_match_wallet_strip)
qed

lemma capital_address_ok:
  "is_wallet_address (strip usage_example)" "is_wallet_address (strip capital_address)"
  "lower usage_example = lower capital_address"
  by code_simp+

lemma handle_active_example:
  "replies (handle_message example_ops gw_active usage_example) = [Analyzing, Analysis (WalletAnalysis active_report)]"
  by code_simp

theorem casing_independent_witness:
  "handle_message example_ops gw_active capital_address = handle_message example_ops gw_active usage_example \<and>
   replies (handle_message example_ops gw_active capital_address) =
     [Analyzing, Analysis (WalletAnalysis active_report)] \<and>
   capital_address \<noteq> usage_example"
proof -
  have "capital_address \<noteq> usage_example" by code_simp
  then show ?thesis
    using casing_independent [OF capital_address_ok(1,2,3), of example_ops gw_active] handle_active_example
    by simp
qed

section \<open>The ranking of trending pairs\<close>

lemma filter_base_dicts:
  "\<forall>p \<in> set pairs. is_dict p \<Longrightarrow> filter_base pairs = Inr (filter is_base pairs)"
  by (induction pairs) (auto simp: is_dict_def is_base_def dict_get_def split: json.splits)

lemma filter_base_not_dict:
  "\<exists>p \<in> set pairs. \<not> is_dict p \<Longrightarrow> \<exists>e. filter_base pairs = Inl e"
  by (induction pairs) (auto simp: is_dict_def dict_get_def split: json.splits sum.splits)

lemma sort_keys_ok:
  "\<forall>x \<in> set xs. \<exists>k. volume_key ops x = Inr k \<and> P k \<Longrightarrow>
     \<exists>keyed. sort_keys ops xs = Inr keyed \<and> map snd keyed = xs \<and>
             (\<forall>(k, x) \<in> set keyed. volume_key ops x = Inr k \<and> P k)"
proof (induction xs)
  case Nil
  then show ?case by simp
next
  case (Cons x xs)
  then obtain k where k: "volume_key ops x = Inr k" "P k" by auto
  from Cons obtain keyed where
    "sort_keys ops xs = Inr keyed" "map snd keyed = xs"
    "\<forall>(k, x) \<in> set keyed. volume_key ops x = Inr k \<and> P k"
    by auto
  with k show ?case
    by (intro exI[of _ "(k, x) # keyed"]) simp
qed

lemma sort_keys_fail:
  "\<exists>x \<in> set xs. \<exists>e. volume_key ops x = Inl e \<Longrightarrow> \<exists>e. sort_keys ops xs = Inl e"
proof (induction xs)
  case Nil
  then show ?case by simp
next
  case (Cons x xs)
  show ?case
  proof (cases "volume_key ops x")
    case (Inl e)
    then show ?thesis by simp
  next
    case (Inr k)
    with Cons.prems have "\<exists>x \<in> set xs. \<exists>e. volume_key ops x = Inl e" by auto
    from Cons.IH[OF this] obtain e where "sort_keys ops xs = Inl e" by blast
    with Inr show ?thesis by simp
  qed
qed

lemma descending_props:
  "mset (descending rank keyed) = mset keyed"
  "sorted_wrt (\<lambda>a b. rank (fst b) \<le> rank (fst a)) (descending rank keyed)"
  "filter (\<lambda>a. rank (fst a) = r) (descending rank keyed) = filter (\<lambda>a. rank (fst a) = r) keyed"
  "length (descending rank keyed) = length keyed"
proof -
  show "mset (descending rank keyed) = mset keyed"
    by (simp add: descending_def)
  have "sorted (map (\<lambda>(k, x). rank k) (sort_key (\<lambda>(k, x). rank k) (rev keyed)))"
    by (rule sorted_sort_key)
  then have "sorted_wrt (\<lambda>a b. rank (fst a) \<le> rank (fst b))
               (sort_key (\<lambda>(k, x). rank k) (rev keyed))"
    by (simp add: sorted_map case_prod_beta)
  then show "sorted_wrt (\<lambda>a b. rank (fst b) \<le> rank (fst a)) (descending rank keyed)"
    by (simp add: descending_def sorted_wrt_rev)
  have "filter (\<lambda>a. (case a of (k, x) \<Rightarrow> rank k) = r) (sort_key (\<lambda>(k, x). rank k) (rev keyed)) =
        filter (\<lambda>a. (case a of (k, x) \<Rightarrow> rank k) = r) (rev keyed)"
    by (rule sort_key_stable)
  then show "filter (\<lambda>a. rank (fst a) = r) (descending rank keyed) =
             filter (\<lambda>a. rank (fst a) = r) keyed"
    by (simp add: descending_def case_prod_beta rev_filter[symmetric])
  show "length (descending rank keyed) = length keyed"
    by (simp add: descending_def)
qed

lemma volume_key_cases:
  "volume_key ops (JObject kv) =
     (case map_of kv ''volume'' of
        None \<Rightarrow> float_of_int ops 0
      | Some (JObject vkv) \<Rightarrow>
          (case map_of vkv ''h24'' of
             None \<Rightarrow> float_of_int ops 0
           | Some JNull \<Rightarrow> float_of_int ops 0
           | Some (JBool b) \<Rightarrow> float_of_int ops (if b then 1 else 0)
           | Some (JInt i) \<Rightarrow> float_of_int ops i
           | Some (JFloat x) \<Rightarrow> if float_is_zero ops x then float_of_int ops 0 else Inr x
           | Some (JStr s) \<Rightarrow>
               if s = [] then float_of_int ops 0
               else (case float_of_str ops s of None \<Rightarrow> Inl ValueError | Some x \<Rightarrow> Inr x)
           | Some (JArray xs) \<Rightarrow> if xs = [] then float_of_int ops 0 else Inl TypeError
           | Some (JObject items) \<Rightarrow> if items = [] then float_of_int ops 0 else Inl TypeError)
      | Some _ \<Rightarrow> Inl AttributeError)"
  by (simp add: volume_key_def dict_get_def or_zero_def py_float_def truthy_def
           split: option.splits json.splits)

text \<open>
  C7, as the code has it. On a list of pair records the function keeps the pairs whose
  \<^verbatim>\<open>chainId\<close> is the string \<^verbatim>\<open>base\<close>. The volume of a pair is the float of its \<^verbatim>\<open>h24\<close>
  figure; a missing \<^verbatim>\<open>volume\<close>, a missing \<^verbatim>\<open>h24\<close> and a null, zero, false or empty
  \<^verbatim>\<open>h24\<close> count as the float of 0. A pair whose \<^verbatim>\<open>volume\<close> is not an object, or whose
  \<^verbatim>\<open>h24\<close> is a value that \<^verbatim>\<open>float\<close> rejects, has no volume, and when a kept pair has none
  the result is the empty list. The list is sorted by the interpreter with
  \<^verbatim>\<open>reverse=True\<close>, which for keys it can order (no NaN) gives a stable descending order:
  when every kept pair has such a volume, the result is the first ten of the kept pairs in
  descending order of volume, pairs of equal volume in their old order.
\<close>

theorem trending_ranked:
  assumes "\<forall>p \<in> set pairs. is_dict p"
    and "\<forall>keyed. (\<forall>k \<in> fst ` set keyed. ordered k) \<longrightarrow>
           srt True keyed = map snd (descending rank keyed)"
  shows "((\<forall>p \<in> set (filter is_base pairs). \<exists>k. volume_key ops p = Inr k \<and> ordered k) \<longrightarrow>
            (\<exists>keyed. map snd keyed = filter is_base pairs \<and>
               (\<forall>(k, p) \<in> set keyed. volume_key ops p = Inr k) \<and>
               get_trending_base ops srt pairs = take 10 (map snd (descending rank keyed)) \<and>
               mset (descending rank keyed) = mset keyed \<and>
               sorted_wrt (\<lambda>a b. rank (fst b) \<le> rank (fst a)) (descending rank keyed) \<and>
               (\<forall>r. filter (\<lambda>a. rank (fst a) = r) (descending rank keyed) =
                     filter (\<lambda>a. rank (fst a) = r) keyed) \<and>
               length (get_trending_base ops srt pairs) =
                 min 10 (length (filter is_base pairs)))) \<and>
         ((\<exists>p \<in> set (filter is_base pairs). \<exists>e. volume_key ops p = Inl e) \<longrightarrow>
            get_trending_base ops srt pairs = []) \<and>
         (filter is_base pairs = [] \<longrightarrow> get_trending_base ops srt pairs = []) \<and>
         (\<forall>kv. is_base (JObject kv) \<longleftrightarrow> map_of kv ''chainId'' = Some (JStr ''base'')) \<and>
         (\<forall>kv. volume_key ops (JObject kv) =
            (case map_of kv ''volume'' of
               None \<Rightarrow> float_of_int ops 0
             | Some (JObject vkv) \<Rightarrow>
                 (case map_of vkv ''h24'' of
                    None \<Rightarrow> float_of_int ops 0
                  | Some JNull \<Rightarrow> float_of_int ops 0
                  | Some (JBool b) \<Rightarrow> float_of_int ops (if b then 1 else 0)
                  | Some (JInt i) \<Rightarrow> float_of_int ops i
                  | Some (JFloat x) \<Rightarrow>
                      if float_is_zero ops x then float_of_int ops 0 else Inr x
                  | Some (JStr s) \<Rightarrow>
                      if s = [] then float_of_int ops 0
                      else (case float_of_str ops s of
                              None \<Rightarrow> Inl ValueError
                            | Some x \<Rightarrow> Inr x)
                  | Some (JArray xs) \<Rightarrow>
                      if xs = [] then float_of_int ops 0 else Inl TypeError
                  | Some (JObject items) \<Rightarrow>
                      if items = [] then float_of_int ops 0 else Inl TypeError)
             | Some _ \<Rightarrow> Inl AttributeError))"
    (is "?ranked \<and> ?fail \<and> ?none \<and> ?base \<and> ?key")
proof -
  note fb = filter_base_dicts[OF assms(1)]
  have ranked: "\<exists>keyed. map snd keyed = filter is_base pairs \<and>
               (\<forall>(k, p) \<in> set keyed. volume_key ops p = Inr k) \<and>
               get_trending_base ops srt pairs = take 10 (map snd (descending rank keyed)) \<and>
               mset (descending rank keyed) = mset keyed \<and>
               sorted_wrt (\<lambda>a b. rank (fst b) \<le> rank (fst a)) (descending rank keyed) \<and>
               (\<forall>r. filter (\<lambda>a. rank (fst a) = r) (descending rank keyed) =
                     filter (\<lambda>a. rank (fst a) = r) keyed) \<and>
               length (get_trending_base ops srt pairs) =
                 min 10 (length (filter is_base pairs))"
    if vols: "\<forall>p \<in> set (filter is_base pairs). \<exists>k. volume_key ops p = Inr k \<and> ordered k"
  proof -
    from sort_keys_ok[OF vols] obtain keyed where
      sk: "sort_keys ops (filter is_base pairs) = Inr keyed" and
      ms: "map snd keyed = filter is_base pairs" and
      ks: "\<forall>(k, p) \<in> set keyed. volume_key ops p = Inr k \<and> ordered k"
      by blast
    have "\<forall>k \<in> fst ` set keyed. ordered k" using ks by auto
    with assms(2) have s: "srt True keyed = map snd (descending rank keyed)" by blast
    have r: "get_trending_base ops srt pairs = take 10 (map snd (descending rank keyed))"
      using fb sk s by (simp add: get_trending_base_def trending_body_def)
    have l: "length keyed = length (filter is_base pairs)"
      using ms by (metis length_map)
    have len: "length (get_trending_base ops srt pairs) = min 10 (length (filter is_base pairs))"
      unfolding r using l by (simp add: descending_props(4))
    have ks': "\<forall>(k, p) \<in> set keyed. volume_key ops p = Inr k" using ks by auto
    show ?thesis
      using ms ks' r len descending_props(1,2)[of rank keyed] descending_props(3)[of rank _ keyed]
      by (intro exI[of _ keyed]) simp
  qed
  have fail: "get_trending_base ops srt pairs = []"
    if "\<exists>p \<in> set (filter is_base pairs). \<exists>e. volume_key ops p = Inl e"
    using sort_keys_fail[OF that] fb
    by (auto simp: get_trending_base_def trending_body_def)
  have none: "get_trending_base ops srt pairs = []" if "filter is_base pairs = []"
  proof -
    have "srt True [] = map snd (descending rank [])" using assms(2) by simp
    then have "srt True [] = []" by (simp add: descending_def)
    then show ?thesis
      using fb that by (simp add: get_trending_base_def trending_body_def)
  qed
  have base: ?base
    by (auto simp: is_base_def dict_get_def split: option.splits)
  have key: ?key
    by (intro allI) (rule volume_key_cases)
  have r: ?ranked using ranked by blast
  have f: ?fail using fail by blast
  have n: ?none using none by blast
  show ?thesis
    using r f n base key by (intro conjI)
qed

lemma example_pairs_dicts:
  "\<forall>p \<in> set example_pairs. is_dict p"
  by (simp add: example_pairs_def pair_of_def is_dict_def)

lemma example_sort_contract:
  "\<forall>keyed. (\<forall>k \<in> fst ` set keyed. (\<lambda>k. True) k) \<longrightarrow>
     example_sort True keyed = map snd (descending (\<lambda>k. k) keyed)"
  by (simp add: example_sort_def)

lemma example_trending:
  "get_trending_base example_ops example_sort example_pairs =
     [pair_of ''base'' ''p1'' (JFloat 100), pair_of ''base'' ''p2'' (JFloat 50),
      pair_of ''base'' ''p3'' (JInt 30), pair_of ''base'' ''p4'' (JInt 10),
      pair_of ''base'' ''p5'' (JStr ''5'')]"
  by code_simp

theorem trending_ranked_witness:
  "get_trending_base example_ops example_sort example_pairs =
     [pair_of ''base'' ''p1'' (JFloat 100), pair_of ''base'' ''p2'' (JFloat 50),
      pair_of ''base'' ''p3'' (JInt 30), pair_of ''base'' ''p4'' (JInt 10),
      pair_of ''base'' ''p5'' (JStr ''5'')] \<and>
   length example_pairs = 8 \<and>
   get_trending_base example_ops example_sort
     [pair_of ''solana'' ''s1'' (JInt 800) :: rat json] = [] \<and>
   get_trending_base example_ops example_sort no_volume_pairs =
     [pair_of ''base'' ''q4'' (JInt 7),
      JObject [(''chainId'', JStr ''base''), (''pairAddress'', JStr ''q1'')],
      pair_of ''base'' ''q2'' JNull, pair_of ''base'' ''q3'' (JStr '''')] \<and>
   get_trending_base example_ops example_sort null_volume_pairs = []"
proof -
  have e: "get_trending_base example_ops example_sort
             [pair_of ''solana'' ''s1'' (JInt 800) :: rat json] = []"
    "get_trending_base example_ops example_sort no_volume_pairs =
     [pair_of ''base'' ''q4'' (JInt 7),
      JObject [(''chainId'', JStr ''base''), (''pairAddress'', JStr ''q1'')],
      pair_of ''base'' ''q2'' JNull, pair_of ''base'' ''q3'' (JStr '''')]"
    "get_trending_base example_ops example_sort null_volume_pairs = []"
    by code_simp+
  show ?thesis
    using trending_ranked [where pairs = example_pairs and srt = example_sort
        and ordered = "\<lambda>k. True" and rank = "\<lambda>k. k" and ops = example_ops,
        OF example_pairs_dicts example_sort_contract]
      example_trending e
    by (simp add: example_pairs_def)
qed

text \<open>
  The statement of C7 with an unparseable volume counted as 0 fails: both pairs are on
  \<^verbatim>\<open>base\<close>, the volume of the second is the text \<^verbatim>\<open>n/a\<close>, and the result is empty
  instead of the two pairs.
\<close>

theorem text_volume_counterexample:
  "filter is_base text_volume_pairs = text_volume_pairs \<and>
   length text_volume_pairs = 2 \<and>
   get_trending_base example_ops example_sort text_volume_pairs = []"
  by code_simp

end
